theory Spec2Isabelle
  imports Complex_Main
begin

section \<open>The data model of peon-ping.ts\<close>

text \<open>
  The plugin maps host events to sound cues. Its interfaces become records, the union of
  category literals a datatype, and every JavaScript \<open>Record<string, T>\<close> a map from
  strings. JavaScript numbers are modelled as rationals: the timestamps, the window and
  the threshold are compared exactly, without the rounding of doubles. A map holds the
  own properties of its object, and values have the types their interfaces declare.
\<close>

record SoundEntry =
  "file" :: string
  line :: string

text \<open>
  \<open>PackManifest.categories\<close> is named \<open>pack_categories\<close> here, since \<open>PeonConfig\<close>
  has a field \<open>categories\<close> too. A category entry \<open>{ sounds: [...] }\<close> is the list of
  its sounds.
\<close>

record PackManifest =
  name :: string
  display_name :: string
  pack_categories :: "string \<rightharpoonup> SoundEntry list"

record PeonConfig =
  active_pack :: string
  volume :: rat
  paused :: bool
  categories :: "string \<rightharpoonup> bool"
  annoyed_threshold :: rat
  annoyed_window_seconds :: rat
  pack_rotation :: "string list"

record PeonState =
  last_played :: "string \<rightharpoonup> string"
  prompt_timestamps :: "string \<rightharpoonup> rat list"
  session_packs :: "string \<rightharpoonup> string"

datatype SoundCategory = Greeting | Complete | Error | Permission | Annoyed

text \<open>The string literal each category stands for; it is the key used in every record.\<close>

fun category_key :: "SoundCategory \<Rightarrow> string" where
  "category_key Greeting = ''greeting''"
| "category_key Complete = ''complete''"
| "category_key Error = ''error''"
| "category_key Permission = ''permission''"
| "category_key Annoyed = ''annoyed''"

definition DEFAULT_CONFIG :: PeonConfig where
  "DEFAULT_CONFIG =
     \<lparr> active_pack = ''peon'',
       volume = 1 / 2,
       paused = False,
       categories = [''greeting'' \<mapsto> True, ''complete'' \<mapsto> True, ''error'' \<mapsto> True,
                     ''permission'' \<mapsto> True, ''annoyed'' \<mapsto> True],
       annoyed_threshold = 3,
       annoyed_window_seconds = 10,
       pack_rotation = [] \<rparr>"

section \<open>Property access\<close>

text \<open>
  The mappings of the state are plain objects, built by an object literal or by
  \<open>JSON.parse\<close>, so they inherit from \<open>Object.prototype\<close>. Reading \<open>obj[key]\<close> finds
  the own property of that name if there is one, otherwise the property of that name
  inherited from \<open>Object.prototype\<close> (a function, and for \<open>__proto__\<close> the prototype
  itself: neither nullish, nor a string, nor an array), otherwise \<open>undefined\<close>.
  Assigning a string to \<open>obj[key]\<close> updates or creates the own property, except for
  \<open>__proto__\<close> where it is not an own property: there the inherited setter runs and
  ignores a value that is not an object, so nothing is stored. \<open>JSON.stringify\<close> writes
  the own properties and \<open>JSON.parse\<close> creates own properties, \<open>__proto__\<close> included.
\<close>

definition objectPrototypeKeys :: "string list" where
  "objectPrototypeKeys =
     [''constructor'', ''hasOwnProperty'', ''isPrototypeOf'', ''propertyIsEnumerable'',
      ''toLocaleString'', ''toString'', ''valueOf'', ''__proto__'', ''__defineGetter__'',
      ''__defineSetter__'', ''__lookupGetter__'', ''__lookupSetter__'']"

datatype 'a property = Own 'a | Inherited | Undefined

definition getProperty :: "(string \<rightharpoonup> 'a) \<Rightarrow> string \<Rightarrow> 'a property" where
  "getProperty obj key =
     (case obj key of
        Some v \<Rightarrow> Own v
      | None \<Rightarrow> if key \<in> set objectPrototypeKeys then Inherited else Undefined)"

definition setStringProperty :: "(string \<rightharpoonup> string) \<Rightarrow> string \<Rightarrow> string \<Rightarrow> (string \<rightharpoonup> string)" where
  "setStringProperty obj key v =
     (if obj key = None \<and> key = ''__proto__'' then obj else obj(key \<mapsto> v))"

section \<open>Randomness\<close>

text \<open>
  \<open>Math.random()\<close> returns a number \<open>u\<close> with \<open>0 \<le> u < 1\<close>. The draw is an
  argument of the functions that make it, of a type that holds exactly these numbers.
  \<open>randomIndex u n\<close> is \<open>Math.floor(Math.random() * n)\<close>.
\<close>

typedef random01 = "{u :: rat. 0 \<le> u \<and> u < 1}"
  by (rule exI [of _ 0]) simp

setup_lifting type_definition_random01

lift_definition random_zero :: random01 is "0 :: rat"
  by simp

lift_definition random_half :: random01 is "1 / 2 :: rat"
  by simp

definition randomIndex :: "random01 \<Rightarrow> nat \<Rightarrow> nat" where
  "randomIndex u n = nat \<lfloor>Rep_random01 u * of_nat n\<rfloor>"

section \<open>Sound selection and pack resolution\<close>

text \<open>
  Reading a property of \<open>undefined\<close> throws a \<open>TypeError\<close>. In \<open>pickSound\<close> this
  happens at \<open>pick.file\<close> when the index is outside \<open>candidates\<close>, which is the case
  exactly when \<open>candidates\<close> is empty. The mutation of \<open>state\<close> is returned as the new
  state. The key of a category names no property of \<open>Object.prototype\<close> (lemma
  \<open>category_key_not_inherited\<close>), so reading it is reading the own property and
  assigning it is an update of the map.
\<close>

datatype js_error = TypeError

definition pickSound ::
  "PackManifest \<Rightarrow> SoundCategory \<Rightarrow> PeonState \<Rightarrow> random01 \<Rightarrow>
     js_error + (SoundEntry option \<times> PeonState)" where
  "pickSound manifest category state u =
     (case pack_categories manifest (category_key category) of
        None \<Rightarrow> Inr (None, state)
      | Some sounds \<Rightarrow>
          if sounds = [] then Inr (None, state)
          else
            let lastFile = (case last_played state (category_key category) of
                              None \<Rightarrow> '''' | Some f \<Rightarrow> f);
                candidates = (if length sounds \<le> 1 then sounds
                              else filter (\<lambda>s. file s \<noteq> lastFile) sounds);
                i = randomIndex u (length candidates)
            in if i < length candidates
               then let pick = candidates ! i
                    in Inr (Some pick,
                            state\<lparr>last_played :=
                              (last_played state)(category_key category \<mapsto> file pick)\<rparr>)
               else Inl TypeError)"

text \<open>
  In \<open>resolveActivePack\<close> the test \<open>existing && ...\<close> is a truthiness test: an entry
  holding the empty string counts as absent. An inherited property is truthy, but
  \<open>includes\<close> compares with \<open>===\<close> and no string of the rotation equals it, so a new
  pack is drawn. The session id is any string, so the entry is read and assigned as a
  property. The rotation is not empty where the index is drawn, so the index is inside
  it (lemma \<open>randomIndex_less\<close>).
\<close>

definition resolveActivePack ::
  "PeonConfig \<Rightarrow> PeonState \<Rightarrow> string \<Rightarrow> random01 \<Rightarrow> string \<times> PeonState" where
  "resolveActivePack config state sessionID u =
     (if pack_rotation config = [] then (active_pack config, state)
      else
        let pickNew =
              (let picked = pack_rotation config ! randomIndex u (length (pack_rotation config))
               in (picked,
                   state\<lparr>session_packs :=
                     setStringProperty (session_packs state) sessionID picked\<rparr>))
        in case getProperty (session_packs state) sessionID of
             Undefined \<Rightarrow> pickNew
           | Inherited \<Rightarrow> pickNew
           | Own existing \<Rightarrow>
               if existing \<noteq> '''' \<and> existing \<in> set (pack_rotation config)
               then (existing, state)
               else pickNew)"

section \<open>The persisted records\<close>

text \<open>
  The runtime directory holds \<open>config.json\<close> and \<open>state.json\<close>. A file is absent, or
  holds text that \<open>JSON.parse\<close> rejects, or holds text that parses to a document. A
  parsed document is modelled by the fields the code reads from it: each one is present
  with a value of its declared type, or missing (\<open>None\<close>); a document that is not an
  object has every field missing. The store is \<open>None\<close> when the runtime directory does
  not exist, so a file can only exist inside an existing directory. Writing a record
  stores the document that \<open>JSON.stringify\<close> produces for it, in which every field is
  present. Reads and writes of the file system itself are taken to succeed.
\<close>

datatype 'a json_file = Absent | Invalid | Parsed 'a

record RawConfig =
  raw_active_pack :: "string option"
  raw_volume :: "rat option"
  raw_paused :: "bool option"
  raw_categories :: "(string \<rightharpoonup> bool) option"
  raw_annoyed_threshold :: "rat option"
  raw_annoyed_window_seconds :: "rat option"
  raw_pack_rotation :: "string list option"

record RawState =
  raw_last_played :: "(string \<rightharpoonup> string) option"
  raw_prompt_timestamps :: "(string \<rightharpoonup> rat list) option"
  raw_session_packs :: "(string \<rightharpoonup> string) option"

record runtime_dir =
  config_json :: "RawConfig json_file"
  state_json :: "RawState json_file"

type_synonym store = "runtime_dir option"

definition stringifyConfig :: "PeonConfig \<Rightarrow> RawConfig" where
  "stringifyConfig c =
     \<lparr> raw_active_pack = Some (active_pack c),
       raw_volume = Some (volume c),
       raw_paused = Some (paused c),
       raw_categories = Some (categories c),
       raw_annoyed_threshold = Some (annoyed_threshold c),
       raw_annoyed_window_seconds = Some (annoyed_window_seconds c),
       raw_pack_rotation = Some (pack_rotation c) \<rparr>"

definition stringifyState :: "PeonState \<Rightarrow> RawState" where
  "stringifyState st =
     \<lparr> raw_last_played = Some (last_played st),
       raw_prompt_timestamps = Some (prompt_timestamps st),
       raw_session_packs = Some (session_packs st) \<rparr>"

text \<open>\<open>{ ...DEFAULT_CONFIG, ...raw }\<close>: a field of \<open>raw\<close> replaces the default as a whole.\<close>

definition mergeConfig :: "RawConfig \<Rightarrow> PeonConfig" where
  "mergeConfig raw =
     \<lparr> active_pack = (case raw_active_pack raw of
                        None \<Rightarrow> active_pack DEFAULT_CONFIG | Some v \<Rightarrow> v),
       volume = (case raw_volume raw of None \<Rightarrow> volume DEFAULT_CONFIG | Some v \<Rightarrow> v),
       paused = (case raw_paused raw of None \<Rightarrow> paused DEFAULT_CONFIG | Some v \<Rightarrow> v),
       categories = (case raw_categories raw of
                       None \<Rightarrow> categories DEFAULT_CONFIG | Some v \<Rightarrow> v),
       annoyed_threshold = (case raw_annoyed_threshold raw of
                              None \<Rightarrow> annoyed_threshold DEFAULT_CONFIG | Some v \<Rightarrow> v),
       annoyed_window_seconds = (case raw_annoyed_window_seconds raw of
                                   None \<Rightarrow> annoyed_window_seconds DEFAULT_CONFIG
                                 | Some v \<Rightarrow> v),
       pack_rotation = (case raw_pack_rotation raw of
                          None \<Rightarrow> pack_rotation DEFAULT_CONFIG | Some v \<Rightarrow> v) \<rparr>"

definition emptyState :: PeonState where
  "emptyState = \<lparr> last_played = Map.empty, prompt_timestamps = Map.empty,
                  session_packs = Map.empty \<rparr>"

text \<open>\<open>ensureRuntimeDir\<close> creates the directory when it is missing; the result is its content.\<close>

definition ensureRuntimeDir :: "store \<Rightarrow> runtime_dir" where
  "ensureRuntimeDir s =
     (case s of None \<Rightarrow> \<lparr> config_json = Absent, state_json = Absent \<rparr> | Some d \<Rightarrow> d)"

definition loadConfig :: "store \<Rightarrow> PeonConfig \<times> store" where
  "loadConfig s =
     (let d = ensureRuntimeDir s
      in case config_json d of
           Absent \<Rightarrow>
             (DEFAULT_CONFIG, Some (d\<lparr>config_json := Parsed (stringifyConfig DEFAULT_CONFIG)\<rparr>))
         | Invalid \<Rightarrow> (DEFAULT_CONFIG, Some d)
         | Parsed raw \<Rightarrow> (mergeConfig raw, Some d))"

definition loadState :: "store \<Rightarrow> PeonState \<times> store" where
  "loadState s =
     (case s of
        None \<Rightarrow> (emptyState, s)
      | Some d \<Rightarrow>
          (case state_json d of
             Absent \<Rightarrow> (emptyState, s)
           | Invalid \<Rightarrow> (emptyState, s)
           | Parsed raw \<Rightarrow>
               (\<lparr> last_played = (case raw_last_played raw of
                                    None \<Rightarrow> Map.empty | Some m \<Rightarrow> m),
                  prompt_timestamps = (case raw_prompt_timestamps raw of
                                          None \<Rightarrow> Map.empty | Some m \<Rightarrow> m),
                  session_packs = (case raw_session_packs raw of
                                      None \<Rightarrow> Map.empty | Some m \<Rightarrow> m) \<rparr>, s)))"

definition saveState :: "PeonState \<Rightarrow> store \<Rightarrow> store" where
  "saveState state s = Some ((ensureRuntimeDir s)\<lparr>state_json := Parsed (stringifyState state)\<rparr>)"

definition saveConfig :: "PeonConfig \<Rightarrow> store \<Rightarrow> store" where
  "saveConfig config s =
     Some ((ensureRuntimeDir s)\<lparr>config_json := Parsed (stringifyConfig config)\<rparr>)"

section \<open>The event handler\<close>

text \<open>
  The host events the handler distinguishes, with the properties it reads:
  \<open>session.created\<close> (\<open>info.id\<close>), \<open>session.idle\<close> (\<open>sessionID\<close>), \<open>session.error\<close>
  (\<open>sessionID\<close>, which may be missing), \<open>permission.asked\<close> (\<open>sessionID\<close>),
  \<open>message.updated\<close> (\<open>info.role\<close> and \<open>info.sessionID\<close>), and every other type.
\<close>

datatype host_event =
    SessionCreated string
  | SessionIdle string
  | SessionError "string option"
  | PermissionAsked string
  | MessageUpdated string string
  | OtherEvent

text \<open>The four variables the \<open>switch\<close> of the handler assigns.\<close>

record classification =
  category :: "SoundCategory option"
  notify :: bool
  notifyMessage :: string
  sessionID :: string

text \<open>
  The body of \<open>case "message.updated"\<close> after the test of the role: the timestamps of the
  session inside the window, then \<open>now\<close>, are saved; the category is \<open>annoyed\<close> when
  they reach the threshold and the category is not switched off. When the session id
  names an inherited property and no own one, \<open>state.prompt_timestamps[sessionID] ?? []\<close>
  is that property, which has no \<open>filter\<close>: the call throws a \<open>TypeError\<close> before
  anything is saved. Where the assignment of the timestamps is reached, the entry is an
  own property or the id names no inherited one, so it is an update of the map.
\<close>

definition observePrompt ::
  "PeonConfig \<Rightarrow> rat \<Rightarrow> string \<Rightarrow> store \<Rightarrow>
     js_error + (SoundCategory option \<times> store)" where
  "observePrompt config now sid s =
     (let (state, s1) = loadState s;
          window = annoyed_window_seconds config;
          threshold = annoyed_threshold config
      in case getProperty (prompt_timestamps state) sid of
           Inherited \<Rightarrow> Inl TypeError
         | stored \<Rightarrow>
             (let timestamps =
                    filter (\<lambda>t. now - t < window)
                      (case stored of Own ts \<Rightarrow> ts | _ \<Rightarrow> []) @ [now];
                  state' = state\<lparr>prompt_timestamps :=
                             (prompt_timestamps state)(sid \<mapsto> timestamps)\<rparr>;
                  s2 = saveState state' s1
              in Inr (if threshold \<le> of_nat (length timestamps) \<and>
                         categories config ''annoyed'' \<noteq> Some False
                      then Some Annoyed else None, s2)))"

text \<open>
  The \<open>switch\<close> on the event type. \<open>Return\<close> is the handler returning from inside the
  switch; \<open>Break\<close> carries the variables and the store to the code after it; \<open>Throw\<close>
  is an error thrown inside the switch, which leaves the store as it was.
\<close>

datatype switch_result = Return store | Break classification store | Throw js_error

definition classifyEvent :: "PeonConfig \<Rightarrow> rat \<Rightarrow> host_event \<Rightarrow> store \<Rightarrow> switch_result" where
  "classifyEvent config now ev s =
     (case ev of
        SessionCreated sid \<Rightarrow>
          Break \<lparr> category = Some Greeting, notify = False, notifyMessage = '''',
                  sessionID = sid \<rparr> s
      | SessionIdle sid \<Rightarrow>
          Break \<lparr> category = Some Complete, notify = True, notifyMessage = ''Task complete'',
                  sessionID = sid \<rparr> s
      | SessionError osid \<Rightarrow>
          Break \<lparr> category = Some Error, notify = True, notifyMessage = ''Session error'',
                  sessionID = (case osid of None \<Rightarrow> '''' | Some sid \<Rightarrow> sid) \<rparr> s
      | PermissionAsked sid \<Rightarrow>
          Break \<lparr> category = Some Permission, notify = True,
                  notifyMessage = ''Permission needed'', sessionID = sid \<rparr> s
      | MessageUpdated role sid \<Rightarrow>
          if role \<noteq> ''user'' then Return s
          else (case observePrompt config now sid s of
                  Inl err \<Rightarrow> Throw err
                | Inr (cat, s') \<Rightarrow>
                    Break \<lparr> category = cat, notify = False, notifyMessage = '''',
                            sessionID = sid \<rparr> s')
      | OtherEvent \<Rightarrow> Return s)"

text \<open>
  What the handler reads from outside the two records: the manifest of a pack
  (\<open>loadManifest\<close>, \<open>None\<close> when it is missing or corrupt), whether a sound file of a
  pack exists, the trimmed name of the frontmost application (\<open>None\<close> when the query
  fails), the clock in seconds, and the two random draws.
\<close>

record host =
  loadManifest :: "string \<Rightarrow> PackManifest option"
  soundExists :: "string \<Rightarrow> string \<Rightarrow> bool"
  frontmostApp :: "string option"
  clock :: rat
  packDraw :: random01
  soundDraw :: random01

text \<open>A host with no pack installed, at time 0, used in examples.\<close>

definition bare_host :: host where
  "bare_host =
     \<lparr> loadManifest = (\<lambda>pack. None), soundExists = (\<lambda>pack sound. False),
       frontmostApp = None, clock = 0, packDraw = random_zero, soundDraw = random_zero \<rparr>"

text \<open>The requests sent out: \<open>afplay\<close> with volume, pack and file, and a notification.\<close>

datatype effect = Afplay rat string string | Notification string

record outcome =
  final_store :: store
  effects :: "effect list"
  thrown :: "js_error option"

definition terminals :: "string list" where
  "terminals = [''Terminal'', ''iTerm2'', ''Warp'', ''Alacritty'', ''kitty'', ''WezTerm'',
                ''Ghostty'']"

definition quiet :: "store \<Rightarrow> outcome" where
  "quiet s = \<lparr> final_store = s, effects = [], thrown = None \<rparr>"

definition event :: "host \<Rightarrow> host_event \<Rightarrow> store \<Rightarrow> outcome" where
  "event h ev s0 =
     (let (config, s1) = loadConfig s0
      in if paused config then quiet s1
         else
           (case classifyEvent config (clock h) ev s1 of
              Return s2 \<Rightarrow> quiet s2
            | Throw err \<Rightarrow> \<lparr> final_store = s1, effects = [], thrown = Some err \<rparr>
            | Break cl s2 \<Rightarrow>
                (case category cl of
                   None \<Rightarrow> quiet s2
                 | Some cat \<Rightarrow>
                     if categories config (category_key cat) = Some False then quiet s2
                     else
                       (let (state, s3) = loadState s2;
                            (activePack, state1) =
                              resolveActivePack config state (sessionID cl) (packDraw h)
                        in (case loadManifest h activePack of
                              None \<Rightarrow> quiet s3
                            | Some manifest \<Rightarrow>
                                (case pickSound manifest cat state1 (soundDraw h) of
                                   Inl err \<Rightarrow>
                                     \<lparr> final_store = s3, effects = [], thrown = Some err \<rparr>
                                 | Inr (sound, state2) \<Rightarrow>
                                     (let s4 = saveState state2 s3
                                      in (case sound of
                                            None \<Rightarrow> quiet s4
                                          | Some entry \<Rightarrow>
                                              if \<not> soundExists h activePack (file entry)
                                              then quiet s4
                                              else
                                                (let focused =
                                                       (case frontmostApp h of
                                                          None \<Rightarrow> False
                                                        | Some app \<Rightarrow> app \<in> set terminals)
                                                 in \<lparr> final_store = s4,
                                                      effects =
                                                        Afplay (volume config) activePack
                                                          (file entry) #
                                                        (if notify cl \<and> \<not> focused
                                                         then [Notification (notifyMessage cl)]
                                                         else []),
                                                      thrown = None \<rparr>)))))))))"

section \<open>Properties of the random index\<close>

lemma randomIndex_less: "0 < n \<Longrightarrow> randomIndex u n < n"
proof -
  assume n: "0 < n"
  have u: "0 \<le> Rep_random01 u" "Rep_random01 u < 1"
    using Rep_random01 [of u] by simp_all
  have "Rep_random01 u * of_nat n < of_nat n"
    using u n by simp
  then have "\<lfloor>Rep_random01 u * of_nat n\<rfloor> < int n"
    by (simp add: floor_less_iff)
  moreover have "0 \<le> \<lfloor>Rep_random01 u * of_nat n\<rfloor>"
    using u by simp
  ultimately have "nat \<lfloor>Rep_random01 u * of_nat n\<rfloor> < n"
    by linarith
  then show ?thesis
    by (simp add: randomIndex_def)
qed

lemma randomIndex_one: "randomIndex u (Suc 0) = 0"
  using randomIndex_less [of "Suc 0" u] by simp

lemma randomIndex_zero: "randomIndex random_zero n = 0"
  by (simp add: randomIndex_def random_zero.rep_eq)

lemma randomIndex_half_2: "randomIndex random_half (Suc (Suc 0)) = Suc 0"
  by (simp add: randomIndex_def random_half.rep_eq)

lemma randomIndex_of_0: "randomIndex u 0 = 0"
  by (simp add: randomIndex_def)

section \<open>Properties of property access\<close>

lemma category_key_not_inherited: "category_key c \<notin> set objectPrototypeKeys"
  by (cases c) (simp_all add: objectPrototypeKeys_def)

text \<open>At the key of a category, reading and assigning are those of the map.\<close>

lemma category_key_plain:
  "getProperty obj (category_key c) = (case obj (category_key c) of None \<Rightarrow> Undefined | Some v \<Rightarrow> Own v)"
  "setStringProperty m (category_key c) v = m(category_key c \<mapsto> v)"
  using category_key_not_inherited [of c]
  by (cases c; simp add: getProperty_def setStringProperty_def split: option.splits)+

lemma getProperty_own: "obj key = Some v \<Longrightarrow> getProperty obj key = Own v"
  by (simp add: getProperty_def)

lemma getProperty_Inherited_iff:
  "getProperty obj key = Inherited \<longleftrightarrow> obj key = None \<and> key \<in> set objectPrototypeKeys"
  by (simp add: getProperty_def split: option.splits)

lemma setStringProperty_other: "k \<noteq> key \<Longrightarrow> setStringProperty obj key v k = obj k"
  by (simp add: setStringProperty_def)

lemma setStringProperty_same:
  "key \<noteq> ''__proto__'' \<or> obj key \<noteq> None \<Longrightarrow> setStringProperty obj key v key = Some v"
  by (auto simp: setStringProperty_def)

section \<open>The sound selector\<close>

text \<open>
  What a returned sound says about the call: it is one of the sounds of the category, it
  is recorded as last played, and in a category of two or more sounds its file differs
  from the one played before.
\<close>

lemma pickSound_Inr_Some:
  assumes "pickSound m c st u = Inr (Some s, st')"
  shows "\<exists>sounds. pack_categories m (category_key c) = Some sounds \<and> s \<in> set sounds \<and>
           st' = st\<lparr>last_played := (last_played st)(category_key c \<mapsto> file s)\<rparr> \<and>
           (2 \<le> length sounds \<longrightarrow>
              file s \<noteq> (case last_played st (category_key c) of None \<Rightarrow> [] | Some f \<Rightarrow> f))"
proof (cases "pack_categories m (category_key c)")
  case None
  with assms show ?thesis by (simp add: pickSound_def)
next
  case (Some sounds)
  define lastFile where "lastFile = (case last_played st (category_key c) of None \<Rightarrow> [] | Some f \<Rightarrow> f)"
  define candidates where
    "candidates = (if length sounds \<le> 1 then sounds else filter (\<lambda>s. file s \<noteq> lastFile) sounds)"
  define i where "i = randomIndex u (length candidates)"
  from assms Some have ne: "sounds \<noteq> []"
    by (auto simp: pickSound_def)
  from assms Some ne have il: "i < length candidates"
    and s: "s = candidates ! i"
    and st': "st' = st\<lparr>last_played := (last_played st)(category_key c \<mapsto> file (candidates ! i))\<rparr>"
    by (auto simp: pickSound_def Let_def lastFile_def candidates_def i_def split: if_splits)
  from il s have mem: "s \<in> set candidates" by simp
  then have "s \<in> set sounds"
    by (auto simp: candidates_def split: if_splits)
  moreover from mem have "2 \<le> length sounds \<longrightarrow> file s \<noteq> lastFile"
    by (auto simp: candidates_def split: if_splits)
  ultimately show ?thesis
    using Some s st' by (simp add: lastFile_def)
qed

lemma pickSound_Inr_None:
  assumes "pickSound m c st u = Inr (None, st')"
  shows "pack_categories m (category_key c) = None \<or> pack_categories m (category_key c) = Some []"
  using assms
  by (auto simp: pickSound_def Let_def split: option.splits if_splits)


text \<open>
  Claim C1. In a category of at least two sounds, two calls of \<open>pickSound\<close> in a row,
  the second on the state the first returned, never return the same file: when both
  return, the second returns a sound and its file differs from the first one's. With
  exactly the two sounds \<open>a.mp3\<close> and \<open>b.mp3\<close> and nothing played before, the first
  call returns one of them and records its file under the category, and the second call
  returns the other one, whatever its random draw.
\<close>

theorem pickSound_no_immediate_repeat:
  "(\<forall>sounds s1 st1 r2 st2.
      pack_categories m (category_key c) = Some sounds \<and> 2 \<le> length sounds \<and>
      pickSound m c st u1 = Inr (Some s1, st1) \<and> pickSound m c st1 u2 = Inr (r2, st2)
      \<longrightarrow> (\<exists>s2. r2 = Some s2 \<and> file s2 \<noteq> file s1))
   \<and>
   (pack_categories m (category_key c) = Some [a, b] \<and> file a = ''a.mp3'' \<and>
    file b = ''b.mp3'' \<and> last_played st (category_key c) = None
    \<longrightarrow> (\<exists>s1 s2. (s1 = a \<and> s2 = b \<or> s1 = b \<and> s2 = a) \<and>
           pickSound m c st u1 =
             Inr (Some s1, st\<lparr>last_played := (last_played st)(category_key c \<mapsto> file s1)\<rparr>) \<and>
           (\<forall>u. pickSound m c
                  (st\<lparr>last_played := (last_played st)(category_key c \<mapsto> file s1)\<rparr>) u =
                Inr (Some s2,
                     st\<lparr>last_played := (last_played st)(category_key c \<mapsto> file s2)\<rparr>))))"
proof (intro conjI allI impI)
  fix sounds s1 st1 r2 st2
  assume h: "pack_categories m (category_key c) = Some sounds \<and> 2 \<le> length sounds \<and>
      pickSound m c st u1 = Inr (Some s1, st1) \<and> pickSound m c st1 u2 = Inr (r2, st2)"
  then have sounds: "pack_categories m (category_key c) = Some sounds" and len: "2 \<le> length sounds"
    and p1: "pickSound m c st u1 = Inr (Some s1, st1)" and p2: "pickSound m c st1 u2 = Inr (r2, st2)"
    by simp_all
  from pickSound_Inr_Some [OF p1]
  have last: "last_played st1 (category_key c) = Some (file s1)"
    by auto
  show "\<exists>s2. r2 = Some s2 \<and> file s2 \<noteq> file s1"
  proof (cases r2)
    case None
    with p2 pickSound_Inr_None [of m c st1 u2 st2] sounds len show ?thesis
      by auto
  next
    case (Some s2)
    with p2 have "pickSound m c st1 u2 = Inr (Some s2, st2)" by simp
    from pickSound_Inr_Some [OF this] sounds len last have "file s2 \<noteq> file s1"
      by auto
    with Some show ?thesis by simp
  qed
next
  assume h: "pack_categories m (category_key c) = Some [a, b] \<and> file a = ''a.mp3'' \<and>
    file b = ''b.mp3'' \<and> last_played st (category_key c) = None"
  let ?k = "category_key c"
  have "randomIndex u1 (Suc (Suc 0)) < Suc (Suc 0)"
    by (rule randomIndex_less) simp
  then consider "randomIndex u1 (Suc (Suc 0)) = 0" | "randomIndex u1 (Suc (Suc 0)) = Suc 0"
    by linarith
  then show "\<exists>s1 s2. (s1 = a \<and> s2 = b \<or> s1 = b \<and> s2 = a) \<and>
           pickSound m c st u1 =
             Inr (Some s1, st\<lparr>last_played := (last_played st)(?k \<mapsto> file s1)\<rparr>) \<and>
           (\<forall>u. pickSound m c (st\<lparr>last_played := (last_played st)(?k \<mapsto> file s1)\<rparr>) u =
                Inr (Some s2, st\<lparr>last_played := (last_played st)(?k \<mapsto> file s2)\<rparr>))"
  proof cases
    case 1
    with h have "pickSound m c st u1 =
        Inr (Some a, st\<lparr>last_played := (last_played st)(?k \<mapsto> file a)\<rparr>)"
      by (simp add: pickSound_def)
    moreover from h have "\<forall>u. pickSound m c (st\<lparr>last_played := (last_played st)(?k \<mapsto> file a)\<rparr>) u =
        Inr (Some b, st\<lparr>last_played := (last_played st)(?k \<mapsto> file b)\<rparr>)"
      by (simp add: pickSound_def randomIndex_one)
    ultimately show ?thesis by blast
  next
    case 2
    with h have "pickSound m c st u1 =
        Inr (Some b, st\<lparr>last_played := (last_played st)(?k \<mapsto> file b)\<rparr>)"
      by (simp add: pickSound_def)
    moreover from h have "\<forall>u. pickSound m c (st\<lparr>last_played := (last_played st)(?k \<mapsto> file b)\<rparr>) u =
        Inr (Some a, st\<lparr>last_played := (last_played st)(?k \<mapsto> file a)\<rparr>)"
      by (simp add: pickSound_def randomIndex_one)
    ultimately show ?thesis by blast
  qed
qed


text \<open>
  The pack of the scenario, with the first draw falling on the second sound: \<open>b.mp3\<close>
  is returned and recorded, then \<open>a.mp3\<close>.
\<close>

theorem pickSound_no_immediate_repeat_witness:
  "pack_categories
     \<lparr> name = ''peon'', display_name = ''Orc Peon'',
       pack_categories = [''complete'' \<mapsto>
         [\<lparr> file = ''a.mp3'', line = ''Work, work.'' \<rparr>,
          \<lparr> file = ''b.mp3'', line = ''Okie dokie.'' \<rparr>]] \<rparr> (category_key Complete) =
     Some [\<lparr> file = ''a.mp3'', line = ''Work, work.'' \<rparr>,
           \<lparr> file = ''b.mp3'', line = ''Okie dokie.'' \<rparr>] \<and>
   last_played emptyState (category_key Complete) = None \<and>
   pickSound
     \<lparr> name = ''peon'', display_name = ''Orc Peon'',
       pack_categories = [''complete'' \<mapsto>
         [\<lparr> file = ''a.mp3'', line = ''Work, work.'' \<rparr>,
          \<lparr> file = ''b.mp3'', line = ''Okie dokie.'' \<rparr>]] \<rparr> Complete emptyState random_half =
     Inr (Some \<lparr> file = ''b.mp3'', line = ''Okie dokie.'' \<rparr>,
          emptyState\<lparr>last_played := [''complete'' \<mapsto> ''b.mp3'']\<rparr>) \<and>
   pickSound
     \<lparr> name = ''peon'', display_name = ''Orc Peon'',
       pack_categories = [''complete'' \<mapsto>
         [\<lparr> file = ''a.mp3'', line = ''Work, work.'' \<rparr>,
          \<lparr> file = ''b.mp3'', line = ''Okie dokie.'' \<rparr>]] \<rparr> Complete
     (emptyState\<lparr>last_played := [''complete'' \<mapsto> ''b.mp3'']\<rparr>) random_half =
     Inr (Some \<lparr> file = ''a.mp3'', line = ''Work, work.'' \<rparr>,
          emptyState\<lparr>last_played := [''complete'' \<mapsto> ''a.mp3'']\<rparr>)"
  using pickSound_no_immediate_repeat
    [of "\<lparr> name = ''peon'', display_name = ''Orc Peon'',
          pack_categories = [''complete'' \<mapsto>
            [\<lparr> file = ''a.mp3'', line = ''Work, work.'' \<rparr>,
             \<lparr> file = ''b.mp3'', line = ''Okie dokie.'' \<rparr>]] \<rparr>"
        Complete emptyState random_half random_half
        "\<lparr> file = ''a.mp3'', line = ''Work, work.'' \<rparr>"
        "\<lparr> file = ''b.mp3'', line = ''Okie dokie.'' \<rparr>"]
  by (simp add: pickSound_def emptyState_def randomIndex_half_2 randomIndex_one)

text \<open>
  Claim C3. \<open>pickSound\<close> is claimed never to throw, also when every sound of a
  category of two or more carries the file that was played last. The code throws there:
  the filter leaves no candidate, \<open>pick\<close> is \<open>undefined\<close> and \<open>pick.file\<close> is a
  \<open>TypeError\<close>. A category whose two sounds share the file \<open>a.mp3\<close> reaches this
  state by itself: the first call returns \<open>a.mp3\<close> and records it, the second call
  throws for every draw.
\<close>

theorem pickSound_throws_on_duplicate_file_ids:
  "pickSound
     \<lparr> name = ''peon'', display_name = ''Orc Peon'',
       pack_categories = [''complete'' \<mapsto>
         [\<lparr> file = ''a.mp3'', line = ''Work, work.'' \<rparr>,
          \<lparr> file = ''a.mp3'', line = ''Okie dokie.'' \<rparr>]] \<rparr> Complete emptyState random_zero =
     Inr (Some \<lparr> file = ''a.mp3'', line = ''Work, work.'' \<rparr>,
          emptyState\<lparr>last_played := [''complete'' \<mapsto> ''a.mp3'']\<rparr>) \<and>
   pickSound
     \<lparr> name = ''peon'', display_name = ''Orc Peon'',
       pack_categories = [''complete'' \<mapsto>
         [\<lparr> file = ''a.mp3'', line = ''Work, work.'' \<rparr>,
          \<lparr> file = ''a.mp3'', line = ''Okie dokie.'' \<rparr>]] \<rparr> Complete
     (emptyState\<lparr>last_played := [''complete'' \<mapsto> ''a.mp3'']\<rparr>) u =
     Inl TypeError"
  by (simp add: pickSound_def emptyState_def randomIndex_zero randomIndex_of_0)

section \<open>The pack resolver\<close>

text \<open>The three paths of \<open>resolveActivePack\<close>, one lemma each.\<close>

lemma resolveActivePack_no_rotation:
  "pack_rotation config = [] \<Longrightarrow> resolveActivePack config st sid u = (active_pack config, st)"
  by (simp add: resolveActivePack_def)

lemma resolveActivePack_sticky:
  "pack_rotation config \<noteq> [] \<Longrightarrow> session_packs st sid = Some p \<Longrightarrow> p \<noteq> [] \<Longrightarrow>
   p \<in> set (pack_rotation config) \<Longrightarrow> resolveActivePack config st sid u = (p, st)"
  by (simp add: resolveActivePack_def getProperty_own)

text \<open>
  Under rotation a call either returns the entry of the session and the state as it is,
  or draws a member of the rotation and assigns it to the entry of the session.
\<close>

lemma resolveActivePack_rotation:
  assumes "pack_rotation config \<noteq> []"
  shows "(\<exists>p. session_packs st sid = Some p \<and> p \<noteq> [] \<and> resolveActivePack config st sid u = (p, st)) \<or>
         resolveActivePack config st sid u =
           (pack_rotation config ! randomIndex u (length (pack_rotation config)),
            st\<lparr>session_packs := setStringProperty (session_packs st) sid
                 (pack_rotation config ! randomIndex u (length (pack_rotation config)))\<rparr>)"
  using assms
  by (auto simp: resolveActivePack_def Let_def getProperty_def split: option.splits)

lemma resolveActivePack_member:
  assumes "pack_rotation config \<noteq> []"
  shows "fst (resolveActivePack config st sid u) \<in> set (pack_rotation config)"
proof -
  have "randomIndex u (length (pack_rotation config)) < length (pack_rotation config)"
    using assms by (simp add: randomIndex_less)
  then have "pack_rotation config ! randomIndex u (length (pack_rotation config))
      \<in> set (pack_rotation config)"
    by simp
  then show ?thesis
    using assms by (auto simp: resolveActivePack_def Let_def split: property.splits)
qed

text \<open>
  The assignment stores the entry unless the session id is \<open>__proto__\<close> and the state
  has no own entry of that name.
\<close>

lemma resolveActivePack_entry:
  assumes "pack_rotation config \<noteq> []"
    and "sid \<noteq> ''__proto__'' \<or> session_packs st sid \<noteq> None"
  shows "session_packs (snd (resolveActivePack config st sid u)) sid =
           Some (fst (resolveActivePack config st sid u))"
  using resolveActivePack_rotation [OF assms(1), of st sid u] assms(2)
  by (auto simp: setStringProperty_same)

text \<open>
  When no name in the rotation is empty, a second call in a row repeats the first: same
  pack, same state.
\<close>

lemma resolveActivePack_twice:
  assumes ne: "pack_rotation config \<noteq> []" and names: "[] \<notin> set (pack_rotation config)"
    and own: "sid \<noteq> ''__proto__'' \<or> session_packs st sid \<noteq> None"
  shows "resolveActivePack config (snd (resolveActivePack config st sid u1)) sid u2 =
           resolveActivePack config st sid u1"
proof -
  let ?r = "resolveActivePack config st sid u1"
  have "fst ?r \<in> set (pack_rotation config)"
    using ne by (rule resolveActivePack_member)
  moreover from this names have "fst ?r \<noteq> []"
    by auto
  moreover have "session_packs (snd ?r) sid = Some (fst ?r)"
    using ne own by (rule resolveActivePack_entry)
  ultimately have "resolveActivePack config (snd ?r) sid u2 = (fst ?r, snd ?r)"
    using ne by (simp add: resolveActivePack_sticky)
  then show ?thesis by simp
qed

text \<open>
  Claim C4, as amended. Under a rotation that is not empty, once the entry of a session
  holds a pack name that is not the empty string and is a member of the rotation, a call
  for that session returns this name and the state as it is, for every draw; the next
  call finds the same state, so this holds for every later call. Under the rotation
  \<open>["a", "b"]\<close> two calls in a row return the same pack, and the second call leaves
  the state of the first, for every session id other than \<open>__proto__\<close>, and for
  \<open>__proto__\<close> too when the state has an own entry of that name.
\<close>

theorem resolveActivePack_sticky_nonempty_name:
  "(pack_rotation config \<noteq> [] \<and> session_packs st sid = Some p \<and> p \<noteq> '''' \<and>
    p \<in> set (pack_rotation config)
    \<longrightarrow> (\<forall>u. resolveActivePack config st sid u = (p, st)))
   \<and>
   (pack_rotation config = [''a'', ''b''] \<and>
    (sid \<noteq> ''__proto__'' \<or> session_packs st sid \<noteq> None)
    \<longrightarrow> fst (resolveActivePack config (snd (resolveActivePack config st sid u1)) sid u2) =
          fst (resolveActivePack config st sid u1) \<and>
        snd (resolveActivePack config (snd (resolveActivePack config st sid u1)) sid u2) =
          snd (resolveActivePack config st sid u1))"
proof (intro conjI impI allI)
  fix u
  assume "pack_rotation config \<noteq> [] \<and> session_packs st sid = Some p \<and> p \<noteq> '''' \<and>
    p \<in> set (pack_rotation config)"
  then show "resolveActivePack config st sid u = (p, st)"
    by (simp add: resolveActivePack_sticky)
next
  assume r: "pack_rotation config = [''a'', ''b''] \<and>
    (sid \<noteq> ''__proto__'' \<or> session_packs st sid \<noteq> None)"
  then have "resolveActivePack config (snd (resolveActivePack config st sid u1)) sid u2 =
      resolveActivePack config st sid u1"
    by (intro resolveActivePack_twice) simp_all
  then show "fst (resolveActivePack config (snd (resolveActivePack config st sid u1)) sid u2) =
      fst (resolveActivePack config st sid u1)"
    and "snd (resolveActivePack config (snd (resolveActivePack config st sid u1)) sid u2) =
      snd (resolveActivePack config st sid u1)"
    by simp_all
qed

text \<open>
  Session \<open>s1\<close> assigned to \<open>a\<close> keeps it; from the empty state the draw picks \<open>b\<close>,
  and the next call returns \<open>b\<close> again although its own draw points at \<open>a\<close>.
\<close>

theorem resolveActivePack_sticky_nonempty_name_witness:
  "resolveActivePack (DEFAULT_CONFIG\<lparr>pack_rotation := [''a'', ''b'']\<rparr>)
     (emptyState\<lparr>session_packs := [''s1'' \<mapsto> ''a'']\<rparr>) ''s1'' random_half =
     (''a'', emptyState\<lparr>session_packs := [''s1'' \<mapsto> ''a'']\<rparr>) \<and>
   fst (resolveActivePack (DEFAULT_CONFIG\<lparr>pack_rotation := [''a'', ''b'']\<rparr>) emptyState ''s1''
          random_half) = ''b'' \<and>
   fst (resolveActivePack (DEFAULT_CONFIG\<lparr>pack_rotation := [''a'', ''b'']\<rparr>)
          (snd (resolveActivePack (DEFAULT_CONFIG\<lparr>pack_rotation := [''a'', ''b'']\<rparr>) emptyState
                  ''s1'' random_half)) ''s1'' random_zero) = ''b''"
  using resolveActivePack_sticky_nonempty_name
    [of "DEFAULT_CONFIG\<lparr>pack_rotation := [''a'', ''b'']\<rparr>"
        "emptyState\<lparr>session_packs := [''s1'' \<mapsto> ''a'']\<rparr>" "''s1''" "''a''"]
    resolveActivePack_sticky_nonempty_name
    [of "DEFAULT_CONFIG\<lparr>pack_rotation := [''a'', ''b'']\<rparr>" emptyState "''s1''" "''a''"
        random_half random_zero]
  by (simp add: resolveActivePack_def Let_def getProperty_def setStringProperty_def
      objectPrototypeKeys_def DEFAULT_CONFIG_def emptyState_def randomIndex_half_2
      randomIndex_zero)

text \<open>
  The claim as it was stated fails in two places. For the empty name: \<open>existing && ...\<close>
  takes an entry that is the empty string for a missing one, so with the rotation
  \<open>["", "b"]\<close> and the entry of \<open>s1\<close> set to \<open>""\<close>, a call draws again, returns \<open>b\<close>
  and overwrites the entry. For the session id \<open>__proto__\<close>: from the empty state under
  the rotation \<open>["a", "b"]\<close> the first call draws \<open>a\<close> and its assignment stores
  nothing, so the second call draws again and returns \<open>b\<close>.
\<close>

theorem resolveActivePack_empty_name_counterexample:
  "session_packs (emptyState\<lparr>session_packs := [''s1'' \<mapsto> '''']\<rparr>) ''s1'' = Some '''' \<and>
   '''' \<in> set (pack_rotation (DEFAULT_CONFIG\<lparr>pack_rotation := ['''', ''b'']\<rparr>)) \<and>
   fst (resolveActivePack (DEFAULT_CONFIG\<lparr>pack_rotation := ['''', ''b'']\<rparr>)
          (emptyState\<lparr>session_packs := [''s1'' \<mapsto> '''']\<rparr>) ''s1'' random_half) = ''b'' \<and>
   session_packs
     (snd (resolveActivePack (DEFAULT_CONFIG\<lparr>pack_rotation := ['''', ''b'']\<rparr>)
             (emptyState\<lparr>session_packs := [''s1'' \<mapsto> '''']\<rparr>) ''s1'' random_half)) ''s1'' =
     Some ''b'' \<and>
   resolveActivePack (DEFAULT_CONFIG\<lparr>pack_rotation := [''a'', ''b'']\<rparr>) emptyState
     ''__proto__'' random_zero = (''a'', emptyState) \<and>
   fst (resolveActivePack (DEFAULT_CONFIG\<lparr>pack_rotation := [''a'', ''b'']\<rparr>)
          (snd (resolveActivePack (DEFAULT_CONFIG\<lparr>pack_rotation := [''a'', ''b'']\<rparr>)
                  emptyState ''__proto__'' random_zero)) ''__proto__'' random_half) = ''b''"
  by (simp add: resolveActivePack_def Let_def getProperty_def setStringProperty_def
      objectPrototypeKeys_def DEFAULT_CONFIG_def emptyState_def randomIndex_half_2
      randomIndex_zero)

text \<open>
  Claim C5. With an empty rotation \<open>resolveActivePack\<close> returns \<open>active_pack\<close>,
  whatever the entry of the session is. With a rotation that is not empty it returns a
  member of the rotation; hence it returns \<open>active_pack\<close> only if \<open>active_pack\<close> is
  itself in the rotation.
\<close>

theorem resolveActivePack_result:
  "(pack_rotation config = [] \<longrightarrow> fst (resolveActivePack config st sid u) = active_pack config)
   \<and> (pack_rotation config \<noteq> []
        \<longrightarrow> fst (resolveActivePack config st sid u) \<in> set (pack_rotation config))
   \<and> (pack_rotation config \<noteq> [] \<and> active_pack config \<notin> set (pack_rotation config)
        \<longrightarrow> fst (resolveActivePack config st sid u) \<noteq> active_pack config)"
proof (intro conjI impI)
  assume "pack_rotation config = []"
  then show "fst (resolveActivePack config st sid u) = active_pack config"
    by (simp add: resolveActivePack_no_rotation)
next
  assume "pack_rotation config \<noteq> []"
  then show "fst (resolveActivePack config st sid u) \<in> set (pack_rotation config)"
    by (rule resolveActivePack_member)
next
  assume "pack_rotation config \<noteq> [] \<and> active_pack config \<notin> set (pack_rotation config)"
  then show "fst (resolveActivePack config st sid u) \<noteq> active_pack config"
    using resolveActivePack_member [of config st sid u] by auto
qed

text \<open>
  Without rotation a stale entry \<open>peasant\<close> is ignored for \<open>peon\<close>; under the rotation
  of \<open>peasant\<close> and \<open>sc_kerrigan\<close> the result is one of the two and not \<open>peon\<close>.
\<close>

theorem resolveActivePack_result_witness:
  "fst (resolveActivePack DEFAULT_CONFIG (emptyState\<lparr>session_packs := [''s1'' \<mapsto> ''peasant'']\<rparr>)
          ''s1'' random_half) = ''peon'' \<and>
   fst (resolveActivePack (DEFAULT_CONFIG\<lparr>pack_rotation := [''peasant'', ''sc_kerrigan'']\<rparr>)
          emptyState ''s1'' random_half) \<in> {''peasant'', ''sc_kerrigan''} \<and>
   fst (resolveActivePack (DEFAULT_CONFIG\<lparr>pack_rotation := [''peasant'', ''sc_kerrigan'']\<rparr>)
          emptyState ''s1'' random_half) \<noteq> ''peon''"
  using resolveActivePack_result
    [of DEFAULT_CONFIG "emptyState\<lparr>session_packs := [''s1'' \<mapsto> ''peasant'']\<rparr>" "''s1''" random_half]
    resolveActivePack_result
    [of "DEFAULT_CONFIG\<lparr>pack_rotation := [''peasant'', ''sc_kerrigan'']\<rparr>" emptyState "''s1''"
        random_half]
  by (simp add: DEFAULT_CONFIG_def)

text \<open>
  Claim C9. With an empty rotation \<open>resolveActivePack\<close> returns the state unchanged,
  stale entries included. With a rotation that is not empty it leaves \<open>last_played\<close>,
  \<open>prompt_timestamps\<close> and the entry of every other session as they were.
\<close>

theorem resolveActivePack_frame:
  "(pack_rotation config = [] \<longrightarrow> snd (resolveActivePack config st sid u) = st)
   \<and> (pack_rotation config \<noteq> []
        \<longrightarrow> last_played (snd (resolveActivePack config st sid u)) = last_played st \<and>
            prompt_timestamps (snd (resolveActivePack config st sid u)) = prompt_timestamps st \<and>
            (\<forall>other. other \<noteq> sid \<longrightarrow>
               session_packs (snd (resolveActivePack config st sid u)) other =
                 session_packs st other))"
proof (intro conjI impI allI)
  assume "pack_rotation config = []"
  then show "snd (resolveActivePack config st sid u) = st"
    by (simp add: resolveActivePack_no_rotation)
next
  assume ne: "pack_rotation config \<noteq> []"
  from resolveActivePack_rotation [OF ne, of st sid u]
  show "last_played (snd (resolveActivePack config st sid u)) = last_played st"
    by auto
  from resolveActivePack_rotation [OF ne, of st sid u]
  show "prompt_timestamps (snd (resolveActivePack config st sid u)) = prompt_timestamps st"
    by auto
  fix other
  assume "other \<noteq> sid"
  with resolveActivePack_rotation [OF ne, of st sid u]
  show "session_packs (snd (resolveActivePack config st sid u)) other = session_packs st other"
    by (auto simp: setStringProperty_other)
qed

text \<open>
  Without rotation the stale entry of \<open>s1\<close> stays; under rotation a call for \<open>s1\<close>
  keeps the entry of \<open>s2\<close> and writes the one of \<open>s1\<close>.
\<close>

theorem resolveActivePack_frame_witness:
  "snd (resolveActivePack DEFAULT_CONFIG (emptyState\<lparr>session_packs := [''s1'' \<mapsto> ''peasant'']\<rparr>)
          ''s1'' random_half) = emptyState\<lparr>session_packs := [''s1'' \<mapsto> ''peasant'']\<rparr> \<and>
   session_packs
     (snd (resolveActivePack (DEFAULT_CONFIG\<lparr>pack_rotation := [''peasant'', ''sc_kerrigan'']\<rparr>)
             (emptyState\<lparr>session_packs := [''s2'' \<mapsto> ''peon'']\<rparr>) ''s1'' random_half)) ''s2'' =
     Some ''peon'' \<and>
   session_packs
     (snd (resolveActivePack (DEFAULT_CONFIG\<lparr>pack_rotation := [''peasant'', ''sc_kerrigan'']\<rparr>)
             (emptyState\<lparr>session_packs := [''s2'' \<mapsto> ''peon'']\<rparr>) ''s1'' random_half)) ''s1'' =
     Some ''sc_kerrigan''"
  using resolveActivePack_frame
    [of DEFAULT_CONFIG "emptyState\<lparr>session_packs := [''s1'' \<mapsto> ''peasant'']\<rparr>" "''s1''" random_half]
    resolveActivePack_frame
    [of "DEFAULT_CONFIG\<lparr>pack_rotation := [''peasant'', ''sc_kerrigan'']\<rparr>"
        "emptyState\<lparr>session_packs := [''s2'' \<mapsto> ''peon'']\<rparr>" "''s1''" random_half]
  by (simp add: resolveActivePack_def Let_def getProperty_def setStringProperty_def
      objectPrototypeKeys_def DEFAULT_CONFIG_def emptyState_def randomIndex_half_2)

section \<open>Loading and saving\<close>

lemma mergeConfig_stringifyConfig: "mergeConfig (stringifyConfig c) = c"
  by (simp add: mergeConfig_def stringifyConfig_def)

lemma loadState_store: "snd (loadState s) = s"
  by (simp add: loadState_def split: option.splits json_file.splits)

lemma loadState_saveState: "loadState (saveState st s) = (st, saveState st s)"
  by (simp add: loadState_def saveState_def stringifyState_def)

lemma loadConfig_absent:
  "config_json (ensureRuntimeDir s) = Absent \<Longrightarrow>
   loadConfig s = (DEFAULT_CONFIG, saveConfig DEFAULT_CONFIG s)"
  by (simp add: loadConfig_def saveConfig_def)

lemma ensureRuntimeDir_present:
  "config_json (ensureRuntimeDir s) \<noteq> Absent \<Longrightarrow> s = Some (ensureRuntimeDir s)"
  by (cases s) (simp_all add: ensureRuntimeDir_def)

lemma loadConfig_invalid:
  "config_json (ensureRuntimeDir s) = Invalid \<Longrightarrow> loadConfig s = (DEFAULT_CONFIG, s)"
  using ensureRuntimeDir_present [of s] by (simp add: loadConfig_def)

lemma loadConfig_parsed:
  "config_json (ensureRuntimeDir s) = Parsed raw \<Longrightarrow> loadConfig s = (mergeConfig raw, s)"
  using ensureRuntimeDir_present [of s] by (simp add: loadConfig_def)

lemma loadConfig_saveConfig: "loadConfig (saveConfig c s) = (c, saveConfig c s)"
  by (simp add: loadConfig_def saveConfig_def ensureRuntimeDir_def mergeConfig_stringifyConfig)

text \<open>A load that changes the store is the one that wrote the defaults.\<close>

lemma loadConfig_changes_store:
  "snd (loadConfig s) \<noteq> s \<Longrightarrow> fst (loadConfig s) = DEFAULT_CONFIG"
  by (cases "config_json (ensureRuntimeDir s)")
     (simp_all add: loadConfig_absent loadConfig_invalid loadConfig_parsed)

lemma loadState_after_loadConfig: "fst (loadState (snd (loadConfig s))) = fst (loadState s)"
proof (cases "config_json (ensureRuntimeDir s)")
  case Absent
  then show ?thesis
    by (cases s)
       (simp_all add: loadConfig_def loadState_def ensureRuntimeDir_def split: json_file.splits)
qed (simp_all add: loadConfig_invalid loadConfig_parsed)

text \<open>
  Claim C7. Loading the config does not fail: \<open>loadConfig\<close> has a result for every
  store. When \<open>config.json\<close> is missing or does not parse, the result is exactly
  \<open>DEFAULT_CONFIG\<close>; when it parses, every field missing from it takes its default and
  every field present is taken as it is. \<open>loadState\<close> returns three empty mappings
  when \<open>state.json\<close> is missing or does not parse, and an empty mapping for every
  top-level key missing from a parsed file. After the default record is written back,
  loading returns the default record, and loading again returns the same record and the
  same store.
\<close>

theorem load_self_healing:
  "(config_json (ensureRuntimeDir s) = Absent \<or> config_json (ensureRuntimeDir s) = Invalid
      \<longrightarrow> fst (loadConfig s) = DEFAULT_CONFIG)
   \<and> (config_json (ensureRuntimeDir s) = Parsed raw
      \<longrightarrow> active_pack (fst (loadConfig s)) =
            (case raw_active_pack raw of None \<Rightarrow> active_pack DEFAULT_CONFIG | Some v \<Rightarrow> v) \<and>
          volume (fst (loadConfig s)) =
            (case raw_volume raw of None \<Rightarrow> volume DEFAULT_CONFIG | Some v \<Rightarrow> v) \<and>
          paused (fst (loadConfig s)) =
            (case raw_paused raw of None \<Rightarrow> paused DEFAULT_CONFIG | Some v \<Rightarrow> v) \<and>
          categories (fst (loadConfig s)) =
            (case raw_categories raw of None \<Rightarrow> categories DEFAULT_CONFIG | Some v \<Rightarrow> v) \<and>
          annoyed_threshold (fst (loadConfig s)) =
            (case raw_annoyed_threshold raw of
               None \<Rightarrow> annoyed_threshold DEFAULT_CONFIG | Some v \<Rightarrow> v) \<and>
          annoyed_window_seconds (fst (loadConfig s)) =
            (case raw_annoyed_window_seconds raw of
               None \<Rightarrow> annoyed_window_seconds DEFAULT_CONFIG | Some v \<Rightarrow> v) \<and>
          pack_rotation (fst (loadConfig s)) =
            (case raw_pack_rotation raw of None \<Rightarrow> pack_rotation DEFAULT_CONFIG | Some v \<Rightarrow> v))
   \<and> (s = None \<or> (\<exists>d. s = Some d \<and> (state_json d = Absent \<or> state_json d = Invalid))
      \<longrightarrow> fst (loadState s) =
            \<lparr> last_played = Map.empty, prompt_timestamps = Map.empty,
              session_packs = Map.empty \<rparr>)
   \<and> (s = Some d \<and> state_json d = Parsed rawst
      \<longrightarrow> last_played (fst (loadState s)) =
            (case raw_last_played rawst of None \<Rightarrow> Map.empty | Some m \<Rightarrow> m) \<and>
          prompt_timestamps (fst (loadState s)) =
            (case raw_prompt_timestamps rawst of None \<Rightarrow> Map.empty | Some m \<Rightarrow> m) \<and>
          session_packs (fst (loadState s)) =
            (case raw_session_packs rawst of None \<Rightarrow> Map.empty | Some m \<Rightarrow> m))
   \<and> fst (loadConfig (saveConfig DEFAULT_CONFIG s)) = DEFAULT_CONFIG
   \<and> loadConfig (snd (loadConfig (saveConfig DEFAULT_CONFIG s))) =
       loadConfig (saveConfig DEFAULT_CONFIG s)"
proof (intro conjI impI)
  assume "config_json (ensureRuntimeDir s) = Absent \<or> config_json (ensureRuntimeDir s) = Invalid"
  then show "fst (loadConfig s) = DEFAULT_CONFIG"
    by (auto simp: loadConfig_absent loadConfig_invalid)
next
  assume "s = None \<or> (\<exists>d. s = Some d \<and> (state_json d = Absent \<or> state_json d = Invalid))"
  then show "fst (loadState s) =
      \<lparr> last_played = Map.empty, prompt_timestamps = Map.empty, session_packs = Map.empty \<rparr>"
    by (auto simp: loadState_def emptyState_def)
next
  show "fst (loadConfig (saveConfig DEFAULT_CONFIG s)) = DEFAULT_CONFIG"
    by (simp add: loadConfig_saveConfig)
  show "loadConfig (snd (loadConfig (saveConfig DEFAULT_CONFIG s))) =
      loadConfig (saveConfig DEFAULT_CONFIG s)"
    by (simp add: loadConfig_saveConfig)
qed (simp_all add: loadConfig_parsed mergeConfig_def loadState_def)

text \<open>
  A corrupt \<open>config.json\<close> loads as the defaults; a file that only sets \<open>paused\<close>
  keeps the default pack; a corrupt \<open>state.json\<close> loads as the empty state; a state
  file with \<open>last_played\<close> only has an empty \<open>session_packs\<close>.
\<close>

theorem load_self_healing_witness:
  "fst (loadConfig (Some \<lparr> config_json = Invalid, state_json = Invalid \<rparr>)) = DEFAULT_CONFIG \<and>
   paused (fst (loadConfig (Some \<lparr> config_json = Parsed
     \<lparr> raw_active_pack = None, raw_volume = None, raw_paused = Some True,
       raw_categories = None, raw_annoyed_threshold = None,
       raw_annoyed_window_seconds = None, raw_pack_rotation = None \<rparr>,
     state_json = Absent \<rparr>))) \<and>
   active_pack (fst (loadConfig (Some \<lparr> config_json = Parsed
     \<lparr> raw_active_pack = None, raw_volume = None, raw_paused = Some True,
       raw_categories = None, raw_annoyed_threshold = None,
       raw_annoyed_window_seconds = None, raw_pack_rotation = None \<rparr>,
     state_json = Absent \<rparr>))) = ''peon'' \<and>
   fst (loadState (Some \<lparr> config_json = Invalid, state_json = Invalid \<rparr>)) = emptyState \<and>
   session_packs (fst (loadState (Some \<lparr> config_json = Absent, state_json = Parsed
     \<lparr> raw_last_played = Some [''complete'' \<mapsto> ''a.mp3''], raw_prompt_timestamps = None,
       raw_session_packs = None \<rparr> \<rparr>))) = Map.empty \<and>
   last_played (fst (loadState (Some \<lparr> config_json = Absent, state_json = Parsed
     \<lparr> raw_last_played = Some [''complete'' \<mapsto> ''a.mp3''], raw_prompt_timestamps = None,
       raw_session_packs = None \<rparr> \<rparr>))) ''complete'' = Some ''a.mp3''"
  using load_self_healing
    [where s = "Some \<lparr> config_json = Invalid, state_json = Invalid \<rparr>"
       and d = "\<lparr> config_json = Invalid, state_json = Invalid \<rparr>"]
    load_self_healing
    [of "Some \<lparr> config_json = Parsed
           \<lparr> raw_active_pack = None, raw_volume = None, raw_paused = Some True,
             raw_categories = None, raw_annoyed_threshold = None,
             raw_annoyed_window_seconds = None, raw_pack_rotation = None \<rparr>,
           state_json = Absent \<rparr>"
        "\<lparr> raw_active_pack = None, raw_volume = None, raw_paused = Some True,
           raw_categories = None, raw_annoyed_threshold = None,
           raw_annoyed_window_seconds = None, raw_pack_rotation = None \<rparr>"]
    load_self_healing
    [of "Some \<lparr> config_json = Absent, state_json = Parsed
           \<lparr> raw_last_played = Some [''complete'' \<mapsto> ''a.mp3''], raw_prompt_timestamps = None,
             raw_session_packs = None \<rparr> \<rparr>" _
        "\<lparr> config_json = Absent, state_json = Parsed
           \<lparr> raw_last_played = Some [''complete'' \<mapsto> ''a.mp3''], raw_prompt_timestamps = None,
             raw_session_packs = None \<rparr> \<rparr>"
        "\<lparr> raw_last_played = Some [''complete'' \<mapsto> ''a.mp3''], raw_prompt_timestamps = None,
           raw_session_packs = None \<rparr>"]
  by (simp add: ensureRuntimeDir_def emptyState_def DEFAULT_CONFIG_def)

text \<open>
  Claim C10. When \<open>config.json\<close> is absent, \<open>loadConfig\<close> returns the defaults and
  the store it leaves holds the default record in \<open>config.json\<close>, so the next load
  reads the defaults from it. \<open>loadState\<close> on a missing \<open>state.json\<close> returns the
  empty mappings and the store as it was.
\<close>

theorem loadConfig_writes_loadState_reads:
  "(config_json (ensureRuntimeDir s) = Absent
      \<longrightarrow> fst (loadConfig s) = DEFAULT_CONFIG \<and>
          snd (loadConfig s) =
            Some ((ensureRuntimeDir s)\<lparr>config_json := Parsed (stringifyConfig DEFAULT_CONFIG)\<rparr>) \<and>
          fst (loadConfig (snd (loadConfig s))) = DEFAULT_CONFIG)
   \<and> (s = None \<or> (\<exists>d. s = Some d \<and> state_json d = Absent)
      \<longrightarrow> loadState s = (emptyState, s))"
proof (intro conjI impI)
  assume a: "config_json (ensureRuntimeDir s) = Absent"
  then show "fst (loadConfig s) = DEFAULT_CONFIG"
    by (simp add: loadConfig_absent)
  from a show "snd (loadConfig s) =
      Some ((ensureRuntimeDir s)\<lparr>config_json := Parsed (stringifyConfig DEFAULT_CONFIG)\<rparr>)"
    by (simp add: loadConfig_absent saveConfig_def)
  from a show "fst (loadConfig (snd (loadConfig s))) = DEFAULT_CONFIG"
    by (simp add: loadConfig_absent loadConfig_saveConfig)
next
  assume "s = None \<or> (\<exists>d. s = Some d \<and> state_json d = Absent)"
  then show "loadState s = (emptyState, s)"
    by (auto simp: loadState_def)
qed

text \<open>
  With no runtime directory at all, \<open>loadConfig\<close> creates it with the default
  \<open>config.json\<close>, while \<open>loadState\<close> leaves it missing.
\<close>

theorem loadConfig_writes_loadState_reads_witness:
  "loadConfig None =
     (DEFAULT_CONFIG,
      Some \<lparr> config_json = Parsed (stringifyConfig DEFAULT_CONFIG), state_json = Absent \<rparr>) \<and>
   loadState None = (emptyState, None)"
  using loadConfig_writes_loadState_reads [of None]
  by (simp add: ensureRuntimeDir_def prod_eq_iff)

section \<open>The rapid-prompt detector\<close>

text \<open>
  \<open>observePrompt\<close> written out. Where the session id names no inherited property, or
  the state has an own entry for it, the call returns the category and the store below;
  otherwise it throws.
\<close>

lemma observePrompt_eq:
  assumes "sid \<notin> set objectPrototypeKeys \<or> prompt_timestamps (fst (loadState s)) sid \<noteq> None"
  shows "observePrompt config now sid s =
     Inr (if annoyed_threshold config \<le>
              of_nat (length (filter (\<lambda>t. now - t < annoyed_window_seconds config)
                 (case prompt_timestamps (fst (loadState s)) sid of None \<Rightarrow> [] | Some ts \<Rightarrow> ts) @ [now]))
            \<and> categories config ''annoyed'' \<noteq> Some False
          then Some Annoyed else None,
          saveState ((fst (loadState s))\<lparr>prompt_timestamps := (prompt_timestamps (fst (loadState s)))
            (sid \<mapsto> filter (\<lambda>t. now - t < annoyed_window_seconds config)
                 (case prompt_timestamps (fst (loadState s)) sid of None \<Rightarrow> [] | Some ts \<Rightarrow> ts) @ [now])\<rparr>) s)"
proof -
  obtain st where "loadState s = (st, s)"
    using loadState_store [of s] by (cases "loadState s") simp
  with assms show ?thesis
    by (auto simp: observePrompt_def Let_def getProperty_def split: option.splits)
qed

lemma observePrompt_inherited:
  assumes "sid \<in> set objectPrototypeKeys" and "prompt_timestamps (fst (loadState s)) sid = None"
  shows "observePrompt config now sid s = Inl TypeError"
proof -
  obtain st where "loadState s = (st, s)"
    using loadState_store [of s] by (cases "loadState s") simp
  with assms show ?thesis
    by (simp add: observePrompt_def Let_def getProperty_def)
qed

lemma observePrompt_returns:
  assumes "observePrompt config now sid s = Inr r"
  shows "sid \<notin> set objectPrototypeKeys \<or> prompt_timestamps (fst (loadState s)) sid \<noteq> None"
  using assms observePrompt_inherited [of sid s config now] by auto

lemma filter_window: "filter (\<lambda>t. now - t < (w::rat)) ts = filter (\<lambda>t. \<not> w \<le> now - t) ts"
  by (simp add: not_le)

text \<open>What a returned observation stored, and what its category is.\<close>

lemma observePrompt_stored:
  assumes "observePrompt config now sid s = Inr (cat, s')"
  shows "prompt_timestamps (fst (loadState s')) sid =
     Some (filter (\<lambda>t. \<not> annoyed_window_seconds config \<le> now - t)
             (case prompt_timestamps (fst (loadState s)) sid of None \<Rightarrow> [] | Some ts \<Rightarrow> ts) @
           [now])"
  using assms observePrompt_eq [OF observePrompt_returns [OF assms], of config now]
  by (auto simp: loadState_saveState filter_window)

lemma observePrompt_category:
  assumes "observePrompt config now sid s = Inr (cat, s')"
  shows "cat = (if annoyed_threshold config \<le>
                   of_nat (length (filter (\<lambda>t. \<not> annoyed_window_seconds config \<le> now - t)
                      (case prompt_timestamps (fst (loadState s)) sid of
                         None \<Rightarrow> [] | Some ts \<Rightarrow> ts) @ [now]))
                 \<and> categories config ''annoyed'' \<noteq> Some False
               then Some Annoyed else None)"
  using assms observePrompt_eq [OF observePrompt_returns [OF assms], of config now]
  by (auto simp: filter_window)

lemma classifyEvent_user_message:
  "observePrompt config now sid s = Inr (cat, s') \<Longrightarrow>
   classifyEvent config now (MessageUpdated ''user'' sid) s =
     Break \<lparr> category = cat, notify = False, notifyMessage = '''', sessionID = sid \<rparr> s'"
  by (simp add: classifyEvent_def)

lemma pickSound_keeps_timestamps:
  "pickSound m c st u = Inr (r, st') \<Longrightarrow> prompt_timestamps st' = prompt_timestamps st"
  by (auto simp: pickSound_def Let_def split: option.splits if_splits)

lemma resolveActivePack_keeps_timestamps:
  "prompt_timestamps (snd (resolveActivePack config st sid u)) = prompt_timestamps st"
  by (simp add: resolveActivePack_def Let_def split: property.splits)

text \<open>
  What the handler does after the switch leaves the prompt timestamps as the switch
  stored them: a later save writes a state that was loaded after the switch and passed
  through \<open>resolveActivePack\<close> and \<open>pickSound\<close> only.
\<close>

lemma event_keeps_timestamps:
  assumes np: "\<not> paused (fst (loadConfig s))"
    and sw: "classifyEvent (fst (loadConfig s)) (clock h) ev (snd (loadConfig s)) = Break cl s2"
  shows "prompt_timestamps (fst (loadState (final_store (event h ev s)))) =
           prompt_timestamps (fst (loadState s2))"
proof -
  let ?config = "fst (loadConfig s)"
  let ?state = "fst (loadState s2)"
  let ?r = "resolveActivePack ?config ?state (sessionID cl) (packDraw h)"
  have ld: "loadState s2 = (?state, s2)"
    using loadState_store [of s2] by (cases "loadState s2") simp
  show ?thesis
  proof (cases "category cl")
    case None
    with np sw show ?thesis
      by (simp add: event_def quiet_def case_prod_beta loadState_store)
  next
    case (Some cat)
    show ?thesis
    proof (cases "categories ?config (category_key cat) = Some False")
      case True
      with np sw Some show ?thesis
        by (simp add: event_def quiet_def case_prod_beta loadState_store)
    next
      case on: False
      show ?thesis
      proof (cases "loadManifest h (fst ?r)")
        case None
        with np sw Some on show ?thesis
          by (simp add: event_def quiet_def case_prod_beta loadState_store)
      next
        case (Some manifest)
        note mf = this
        show ?thesis
        proof (cases "pickSound manifest cat (snd ?r) (soundDraw h)")
          case (Inl err)
          with np sw \<open>category cl = Some cat\<close> on mf show ?thesis
            by (simp add: event_def quiet_def case_prod_beta loadState_store)
        next
          case (Inr res)
          obtain sound state2 where res: "res = (sound, state2)"
            by (cases res)
          with Inr have ps: "pickSound manifest cat (snd ?r) (soundDraw h) = Inr (sound, state2)"
            by simp
          have "final_store (event h ev s) = saveState state2 s2"
            using np sw \<open>category cl = Some cat\<close> on mf ps
            by (simp add: event_def quiet_def case_prod_beta Let_def loadState_store
                split: option.splits)
          moreover have "prompt_timestamps state2 = prompt_timestamps ?state"
            using pickSound_keeps_timestamps [OF ps]
            by (simp add: resolveActivePack_keeps_timestamps)
          ultimately show ?thesis
            by (simp add: loadState_saveState)
        qed
      qed
    qed
  qed
qed

text \<open>
  Claim C2, as amended. For a user message at time \<open>now\<close> of a session whose id names
  no property inherited from \<open>Object.prototype\<close>, or has an own entry in
  \<open>prompt_timestamps\<close>, the stored timestamps \<open>t\<close> of the session with
  \<open>now - t \<ge> window\<close> are dropped, \<open>now\<close> is appended, and the result is saved
  whatever the category turns out to be. The event is classified as \<open>annoyed\<close> exactly
  when the length of that sequence reaches the threshold and the category \<open>annoyed\<close>
  is not switched off; otherwise it has no category. The switch of the handler does
  exactly this for a user message, and when the handler is not paused the sequence is
  what the state file holds for the session when the handler is done. With window 10,
  threshold 3 and \<open>annoyed\<close> not switched off, observations at 0, 1 and 2 trigger on
  the third, and one at 13 after them keeps only itself and does not trigger.
\<close>

theorem observePrompt_sliding_window:
  "(sid \<notin> set objectPrototypeKeys \<or> prompt_timestamps (fst (loadState s)) sid \<noteq> None \<longrightarrow>
      (\<exists>cat s'.
         observePrompt config now sid s = Inr (cat, s') \<and>
         prompt_timestamps (fst (loadState s')) sid =
           Some (filter (\<lambda>t. \<not> annoyed_window_seconds config \<le> now - t)
                   (case prompt_timestamps (fst (loadState s)) sid of
                      None \<Rightarrow> [] | Some ts \<Rightarrow> ts) @ [now]) \<and>
         (cat = Some Annoyed \<longleftrightarrow>
            annoyed_threshold config \<le>
              of_nat (length (filter (\<lambda>t. \<not> annoyed_window_seconds config \<le> now - t)
                 (case prompt_timestamps (fst (loadState s)) sid of
                    None \<Rightarrow> [] | Some ts \<Rightarrow> ts) @ [now])) \<and>
            categories config ''annoyed'' \<noteq> Some False) \<and>
         (cat \<noteq> Some Annoyed \<longrightarrow> cat = None) \<and>
         classifyEvent config now (MessageUpdated ''user'' sid) s =
           Break \<lparr> category = cat, notify = False, notifyMessage = '''',
                   sessionID = sid \<rparr> s'))
   \<and> (\<not> paused (fst (loadConfig s0)) \<and>
       (sid \<notin> set objectPrototypeKeys \<or> prompt_timestamps (fst (loadState s0)) sid \<noteq> None) \<longrightarrow>
        prompt_timestamps
          (fst (loadState (final_store (event h (MessageUpdated ''user'' sid) s0)))) sid =
          Some (filter (\<lambda>t. \<not> annoyed_window_seconds (fst (loadConfig s0)) \<le> clock h - t)
                  (case prompt_timestamps (fst (loadState s0)) sid of
                     None \<Rightarrow> [] | Some ts \<Rightarrow> ts) @
                [clock h]))
   \<and> (annoyed_window_seconds config = 10 \<and> annoyed_threshold config = 3 \<and>
       categories config ''annoyed'' \<noteq> Some False \<longrightarrow>
        (sid \<notin> set objectPrototypeKeys \<and> prompt_timestamps (fst (loadState s)) sid = None \<longrightarrow>
           (\<exists>s'. observePrompt config 0 sid s = Inr (None, s') \<and>
                 prompt_timestamps (fst (loadState s')) sid = Some [0])) \<and>
        (prompt_timestamps (fst (loadState s)) sid = Some [0] \<longrightarrow>
           (\<exists>s'. observePrompt config 1 sid s = Inr (None, s') \<and>
                 prompt_timestamps (fst (loadState s')) sid = Some [0, 1])) \<and>
        (prompt_timestamps (fst (loadState s)) sid = Some [0, 1] \<longrightarrow>
           (\<exists>s'. observePrompt config 2 sid s = Inr (Some Annoyed, s') \<and>
                 prompt_timestamps (fst (loadState s')) sid = Some [0, 1, 2])) \<and>
        (prompt_timestamps (fst (loadState s)) sid = Some [0, 1, 2] \<longrightarrow>
           (\<exists>s'. observePrompt config 13 sid s = Inr (None, s') \<and>
                 prompt_timestamps (fst (loadState s')) sid = Some [13])))"
proof -
  have run: "\<exists>s'. observePrompt config t sid s =
        Inr (if annoyed_threshold config \<le>
                of_nat (length (filter (\<lambda>x. \<not> annoyed_window_seconds config \<le> t - x)
                   (case prompt_timestamps (fst (loadState s)) sid of
                      None \<Rightarrow> [] | Some ts \<Rightarrow> ts) @ [t]))
              \<and> categories config ''annoyed'' \<noteq> Some False
            then Some Annoyed else None, s') \<and>
      prompt_timestamps (fst (loadState s')) sid =
        Some (filter (\<lambda>x. \<not> annoyed_window_seconds config \<le> t - x)
                (case prompt_timestamps (fst (loadState s)) sid of
                   None \<Rightarrow> [] | Some ts \<Rightarrow> ts) @ [t])"
    if ok: "sid \<notin> set objectPrototypeKeys \<or> prompt_timestamps (fst (loadState s)) sid \<noteq> None"
    for t
  proof -
    obtain cat s' where r: "observePrompt config t sid s = Inr (cat, s')"
      using observePrompt_eq [OF ok, of config t] by simp
    from observePrompt_category [OF r] observePrompt_stored [OF r] r show ?thesis
      by simp
  qed
  show ?thesis
  proof (intro conjI impI)
    assume ok: "sid \<notin> set objectPrototypeKeys \<or> prompt_timestamps (fst (loadState s)) sid \<noteq> None"
    obtain cat s' where r: "observePrompt config now sid s = Inr (cat, s')"
      using observePrompt_eq [OF ok, of config now] by simp
    from observePrompt_category [OF r] observePrompt_stored [OF r] classifyEvent_user_message [OF r] r
    show "\<exists>cat s'.
         observePrompt config now sid s = Inr (cat, s') \<and>
         prompt_timestamps (fst (loadState s')) sid =
           Some (filter (\<lambda>t. \<not> annoyed_window_seconds config \<le> now - t)
                   (case prompt_timestamps (fst (loadState s)) sid of
                      None \<Rightarrow> [] | Some ts \<Rightarrow> ts) @ [now]) \<and>
         (cat = Some Annoyed \<longleftrightarrow>
            annoyed_threshold config \<le>
              of_nat (length (filter (\<lambda>t. \<not> annoyed_window_seconds config \<le> now - t)
                 (case prompt_timestamps (fst (loadState s)) sid of
                    None \<Rightarrow> [] | Some ts \<Rightarrow> ts) @ [now])) \<and>
            categories config ''annoyed'' \<noteq> Some False) \<and>
         (cat \<noteq> Some Annoyed \<longrightarrow> cat = None) \<and>
         classifyEvent config now (MessageUpdated ''user'' sid) s =
           Break \<lparr> category = cat, notify = False, notifyMessage = '''',
                   sessionID = sid \<rparr> s'"
      by (intro exI [of _ cat] exI [of _ s']) (simp split: if_splits)
  next
    assume a: "\<not> paused (fst (loadConfig s0)) \<and>
       (sid \<notin> set objectPrototypeKeys \<or> prompt_timestamps (fst (loadState s0)) sid \<noteq> None)"
    let ?config = "fst (loadConfig s0)"
    let ?s1 = "snd (loadConfig s0)"
    from a have np: "\<not> paused ?config"
      and ok: "sid \<notin> set objectPrototypeKeys \<or> prompt_timestamps (fst (loadState ?s1)) sid \<noteq> None"
      by (simp_all add: loadState_after_loadConfig)
    obtain cat s' where r: "observePrompt ?config (clock h) sid ?s1 = Inr (cat, s')"
      using observePrompt_eq [OF ok, of ?config "clock h"] by simp
    from event_keeps_timestamps [OF np classifyEvent_user_message [OF r]]
      observePrompt_stored [OF r]
    show "prompt_timestamps
          (fst (loadState (final_store (event h (MessageUpdated ''user'' sid) s0)))) sid =
          Some (filter (\<lambda>t. \<not> annoyed_window_seconds (fst (loadConfig s0)) \<le> clock h - t)
                  (case prompt_timestamps (fst (loadState s0)) sid of
                     None \<Rightarrow> [] | Some ts \<Rightarrow> ts) @
                [clock h])"
      by (simp add: loadState_after_loadConfig)
  next
    assume c: "annoyed_window_seconds config = 10 \<and> annoyed_threshold config = 3 \<and>
       categories config ''annoyed'' \<noteq> Some False"
      and p: "sid \<notin> set objectPrototypeKeys \<and> prompt_timestamps (fst (loadState s)) sid = None"
    from run [of 0] p c
    show "\<exists>s'. observePrompt config 0 sid s = Inr (None, s') \<and>
                 prompt_timestamps (fst (loadState s')) sid = Some [0]"
      by simp
  next
    assume c: "annoyed_window_seconds config = 10 \<and> annoyed_threshold config = 3 \<and>
       categories config ''annoyed'' \<noteq> Some False"
      and p: "prompt_timestamps (fst (loadState s)) sid = Some [0]"
    from run [of 1] p c
    show "\<exists>s'. observePrompt config 1 sid s = Inr (None, s') \<and>
                 prompt_timestamps (fst (loadState s')) sid = Some [0, 1]"
      by simp
  next
    assume c: "annoyed_window_seconds config = 10 \<and> annoyed_threshold config = 3 \<and>
       categories config ''annoyed'' \<noteq> Some False"
      and p: "prompt_timestamps (fst (loadState s)) sid = Some [0, 1]"
    from run [of 2] p c
    show "\<exists>s'. observePrompt config 2 sid s = Inr (Some Annoyed, s') \<and>
                 prompt_timestamps (fst (loadState s')) sid = Some [0, 1, 2]"
      by simp
  next
    assume c: "annoyed_window_seconds config = 10 \<and> annoyed_threshold config = 3 \<and>
       categories config ''annoyed'' \<noteq> Some False"
      and p: "prompt_timestamps (fst (loadState s)) sid = Some [0, 1, 2]"
    from run [of 13] p c
    show "\<exists>s'. observePrompt config 13 sid s = Inr (None, s') \<and>
                 prompt_timestamps (fst (loadState s')) sid = Some [13]"
      by simp
  qed
qed

text \<open>
  The defaults, a session with timestamps 0 and 1, and a message at 2: the third within
  ten seconds. Then the whole handler on a message at 13: only 13 is left in the file.
\<close>

theorem observePrompt_sliding_window_witness:
  "observePrompt DEFAULT_CONFIG 2 ''s1''
     (Some \<lparr> config_json = Absent, state_json = Parsed
        \<lparr> raw_last_played = None, raw_prompt_timestamps = Some [''s1'' \<mapsto> [0, 1]],
          raw_session_packs = None \<rparr> \<rparr>) =
     Inr (Some Annoyed,
          Some \<lparr> config_json = Absent, state_json = Parsed
            \<lparr> raw_last_played = Some Map.empty,
              raw_prompt_timestamps = Some [''s1'' \<mapsto> [0, 1, 2]],
              raw_session_packs = Some Map.empty \<rparr> \<rparr>) \<and>
   prompt_timestamps (fst (loadState (final_store (event (bare_host\<lparr>clock := 13\<rparr>)
          (MessageUpdated ''user'' ''s1'')
          (Some \<lparr> config_json = Invalid, state_json = Parsed
             \<lparr> raw_last_played = None, raw_prompt_timestamps = Some [''s1'' \<mapsto> [0, 1, 2]],
               raw_session_packs = None \<rparr> \<rparr>))))) ''s1'' = Some [13]"
  using observePrompt_sliding_window
    [of "''s1''"
        "Some \<lparr> config_json = Absent, state_json = Parsed
           \<lparr> raw_last_played = None, raw_prompt_timestamps = Some [''s1'' \<mapsto> [0, 1]],
             raw_session_packs = None \<rparr> \<rparr>"
        DEFAULT_CONFIG 2
        "Some \<lparr> config_json = Invalid, state_json = Parsed
           \<lparr> raw_last_played = None, raw_prompt_timestamps = Some [''s1'' \<mapsto> [0, 1, 2]],
             raw_session_packs = None \<rparr> \<rparr>"
        "bare_host\<lparr>clock := 13\<rparr>"]
  by (simp add: DEFAULT_CONFIG_def loadState_def loadConfig_def ensureRuntimeDir_def
      bare_host_def objectPrototypeKeys_def observePrompt_def getProperty_def saveState_def
      stringifyState_def)

text \<open>
  The claim as it was stated fails in two places. That the event is classified as
  \<open>annoyed\<close> exactly when the length reaches the threshold fails when the category is
  switched off: the same third message is saved, the length 3 reaches the threshold 3,
  and there is no category. That the sequence is saved whatever happens fails for a
  session id that names an inherited property: for the session \<open>constructor\<close> without
  an own entry the observation throws and nothing is saved.
\<close>

theorem observePrompt_disabled_counterexample:
  "observePrompt (DEFAULT_CONFIG\<lparr>categories := [''annoyed'' \<mapsto> False]\<rparr>) 2 ''s1''
     (Some \<lparr> config_json = Absent, state_json = Parsed
        \<lparr> raw_last_played = None, raw_prompt_timestamps = Some [''s1'' \<mapsto> [0, 1]],
          raw_session_packs = None \<rparr> \<rparr>) =
     Inr (None,
          Some \<lparr> config_json = Absent, state_json = Parsed
            \<lparr> raw_last_played = Some Map.empty,
              raw_prompt_timestamps = Some [''s1'' \<mapsto> [0, 1, 2]],
              raw_session_packs = Some Map.empty \<rparr> \<rparr>) \<and>
   annoyed_threshold (DEFAULT_CONFIG\<lparr>categories := [''annoyed'' \<mapsto> False]\<rparr>) \<le>
     of_nat (length [0, 1, 2 :: rat]) \<and>
   observePrompt DEFAULT_CONFIG 2 ''constructor'' None = Inl TypeError \<and>
   event bare_host (MessageUpdated ''user'' ''constructor'')
     (Some \<lparr> config_json = Invalid, state_json = Absent \<rparr>) =
     \<lparr> final_store = Some \<lparr> config_json = Invalid, state_json = Absent \<rparr>, effects = [],
       thrown = Some TypeError \<rparr>"
  by (simp add: DEFAULT_CONFIG_def loadState_def loadConfig_def ensureRuntimeDir_def
      bare_host_def objectPrototypeKeys_def observePrompt_def getProperty_def saveState_def
      stringifyState_def emptyState_def event_def classifyEvent_def)

section \<open>The classifier and the handler\<close>

text \<open>
  Claim C8. The switch maps the events as the table says: a created session to
  \<open>greeting\<close> without notification and with the id of the new session; an idle
  session to \<open>complete\<close>, a permission request to \<open>permission\<close> and a session
  error to \<open>error\<close>, all three with notification and the session id of the event,
  which for an error without one is the empty string. Every other event and every
  message that is not from the user makes the handler return without a category, with
  no request sent and no state written.
\<close>

theorem classifyEvent_table:
  "classifyEvent config now (SessionCreated sid) s =
     Break \<lparr> category = Some Greeting, notify = False, notifyMessage = '''',
             sessionID = sid \<rparr> s
   \<and> classifyEvent config now (SessionIdle sid) s =
     Break \<lparr> category = Some Complete, notify = True, notifyMessage = ''Task complete'',
             sessionID = sid \<rparr> s
   \<and> classifyEvent config now (PermissionAsked sid) s =
     Break \<lparr> category = Some Permission, notify = True, notifyMessage = ''Permission needed'',
             sessionID = sid \<rparr> s
   \<and> classifyEvent config now (SessionError (Some sid)) s =
     Break \<lparr> category = Some Error, notify = True, notifyMessage = ''Session error'',
             sessionID = sid \<rparr> s
   \<and> classifyEvent config now (SessionError None) s =
     Break \<lparr> category = Some Error, notify = True, notifyMessage = ''Session error'',
             sessionID = '''' \<rparr> s
   \<and> classifyEvent config now OtherEvent s = Return s
   \<and> (role \<noteq> ''user'' \<longrightarrow> classifyEvent config now (MessageUpdated role sid) s = Return s)
   \<and> (\<not> paused (fst (loadConfig s0)) \<longrightarrow>
        event h OtherEvent s0 =
          \<lparr> final_store = snd (loadConfig s0), effects = [], thrown = None \<rparr>)
   \<and> (\<not> paused (fst (loadConfig s0)) \<and> role \<noteq> ''user'' \<longrightarrow>
        event h (MessageUpdated role sid) s0 =
          \<lparr> final_store = snd (loadConfig s0), effects = [], thrown = None \<rparr>)"
  by (simp add: classifyEvent_def event_def quiet_def case_prod_beta)

text \<open>A message of the assistant is ignored.\<close>

theorem classifyEvent_table_witness:
  "classifyEvent DEFAULT_CONFIG 0 (MessageUpdated ''assistant'' ''s1'') None = Return None \<and>
   event bare_host (MessageUpdated ''assistant'' ''s1'')
     (Some \<lparr> config_json = Invalid, state_json = Absent \<rparr>) =
     \<lparr> final_store = Some \<lparr> config_json = Invalid, state_json = Absent \<rparr>, effects = [],
       thrown = None \<rparr>"
  using classifyEvent_table
    [of DEFAULT_CONFIG 0 "''s1''" None "''assistant''"
        "Some \<lparr> config_json = Invalid, state_json = Absent \<rparr>" bare_host]
  by (simp add: loadConfig_def ensureRuntimeDir_def DEFAULT_CONFIG_def)

lemma DEFAULT_CONFIG_enabled: "categories DEFAULT_CONFIG (category_key c) = Some True"
  by (cases c) (simp_all add: DEFAULT_CONFIG_def)

lemma DEFAULT_CONFIG_not_paused: "\<not> paused DEFAULT_CONFIG"
  by (simp add: DEFAULT_CONFIG_def)

text \<open>A config that pauses, or that switches a category off, was read from a file.\<close>

lemma loadConfig_paused_store:
  assumes "paused (fst (loadConfig s))"
  shows "snd (loadConfig s) = s"
proof (rule ccontr)
  assume "snd (loadConfig s) \<noteq> s"
  then have "fst (loadConfig s) = DEFAULT_CONFIG"
    by (rule loadConfig_changes_store)
  with assms show False
    by (simp add: DEFAULT_CONFIG_not_paused)
qed

lemma loadConfig_disabled_store:
  assumes "categories (fst (loadConfig s)) (category_key c) = Some False"
  shows "snd (loadConfig s) = s"
proof (rule ccontr)
  assume "snd (loadConfig s) \<noteq> s"
  then have "fst (loadConfig s) = DEFAULT_CONFIG"
    by (rule loadConfig_changes_store)
  with assms show False
    by (simp add: DEFAULT_CONFIG_enabled)
qed

text \<open>
  The switch changes the store only in the case of a user message, and there it never
  resolves to a category that is switched off.
\<close>

lemma classifyEvent_disabled_store:
  assumes "classifyEvent config now ev s = Break cl s2"
    and "category cl = Some c"
    and "categories config (category_key c) = Some False"
  shows "s2 = s"
proof (cases ev)
  case (MessageUpdated role sid)
  show ?thesis
  proof (cases "role = ''user''")
    case True
    with assms(1) MessageUpdated
    have "observePrompt config now sid s = Inr (category cl, s2)"
      by (auto simp: classifyEvent_def split: sum.splits)
    with assms(2) have "observePrompt config now sid s = Inr (Some c, s2)"
      by simp
    from observePrompt_category [OF this]
    have "c = Annoyed \<and> categories config ''annoyed'' \<noteq> Some False"
      by (simp split: if_splits)
    with assms(3) show ?thesis
      by simp
  next
    case False
    with assms(1) MessageUpdated show ?thesis
      by (simp add: classifyEvent_def)
  qed
qed (use assms(1) in \<open>auto simp: classifyEvent_def\<close>)

lemma event_paused:
  assumes "paused (fst (loadConfig s))"
  shows "event h ev s = \<lparr> final_store = s, effects = [], thrown = None \<rparr>"
  using assms loadConfig_paused_store [OF assms]
  by (simp add: event_def quiet_def case_prod_beta)

lemma event_disabled:
  assumes np: "\<not> paused (fst (loadConfig s))"
    and cl: "classifyEvent (fst (loadConfig s)) (clock h) ev (snd (loadConfig s)) = Break cl s2"
    and c: "category cl = Some c"
    and off: "categories (fst (loadConfig s)) (category_key c) = Some False"
  shows "event h ev s = \<lparr> final_store = s, effects = [], thrown = None \<rparr>"
proof -
  have "s2 = snd (loadConfig s)"
    using cl c off by (rule classifyEvent_disabled_store)
  moreover have "snd (loadConfig s) = s"
    using off by (rule loadConfig_disabled_store)
  ultimately show ?thesis
    using np cl c off by (simp add: event_def quiet_def case_prod_beta)
qed

text \<open>
  Claim C6. When the loaded config is paused, and when it is not paused but the category
  the switch resolved is switched off, the handler ends with the store it started from,
  no request sent and nothing thrown. In particular a session error with
  \<open>categories.error = false\<close> changes nothing. (A user message is never resolved to a
  category that is switched off: with \<open>annoyed\<close> off it has no category, and its
  timestamp is saved, as claim C2 says.)
\<close>

theorem event_paused_or_disabled_no_effect:
  "(paused (fst (loadConfig s))
      \<longrightarrow> event h ev s = \<lparr> final_store = s, effects = [], thrown = None \<rparr>)
   \<and> (\<forall>cl s2 c.
        \<not> paused (fst (loadConfig s)) \<and>
        classifyEvent (fst (loadConfig s)) (clock h) ev (snd (loadConfig s)) = Break cl s2 \<and>
        category cl = Some c \<and>
        categories (fst (loadConfig s)) (category_key c) = Some False
        \<longrightarrow> event h ev s = \<lparr> final_store = s, effects = [], thrown = None \<rparr>)
   \<and> (categories (fst (loadConfig s)) ''error'' = Some False
      \<longrightarrow> event h (SessionError osid) s = \<lparr> final_store = s, effects = [], thrown = None \<rparr>)"
proof (intro conjI impI allI)
  assume "paused (fst (loadConfig s))"
  then show "event h ev s = \<lparr> final_store = s, effects = [], thrown = None \<rparr>"
    by (rule event_paused)
next
  fix cl s2 c
  assume "\<not> paused (fst (loadConfig s)) \<and>
        classifyEvent (fst (loadConfig s)) (clock h) ev (snd (loadConfig s)) = Break cl s2 \<and>
        category cl = Some c \<and>
        categories (fst (loadConfig s)) (category_key c) = Some False"
  then show "event h ev s = \<lparr> final_store = s, effects = [], thrown = None \<rparr>"
    by (auto intro: event_disabled)
next
  assume off: "categories (fst (loadConfig s)) ''error'' = Some False"
  show "event h (SessionError osid) s = \<lparr> final_store = s, effects = [], thrown = None \<rparr>"
  proof (cases "paused (fst (loadConfig s))")
    case True
    then show ?thesis by (rule event_paused)
  next
    case False
    have sw: "classifyEvent (fst (loadConfig s)) (clock h) (SessionError osid) (snd (loadConfig s)) =
        Break \<lparr> category = Some Error, notify = True, notifyMessage = ''Session error'',
                sessionID = (case osid of None \<Rightarrow> '''' | Some sid \<Rightarrow> sid) \<rparr>
          (snd (loadConfig s))"
      by (simp add: classifyEvent_def)
    from off have "categories (fst (loadConfig s)) (category_key Error) = Some False"
      by simp
    from event_disabled [OF False sw _ this] show ?thesis
      by simp
  qed
qed

text \<open>
  A session error under a config that switches \<open>error\<close> off, and an idle session
  under a paused config: the store is returned as it was.
\<close>

theorem event_paused_or_disabled_no_effect_witness:
  "event bare_host (SessionError (Some ''s1''))
     (Some \<lparr> config_json = Parsed
        \<lparr> raw_active_pack = None, raw_volume = None, raw_paused = None,
          raw_categories = Some [''error'' \<mapsto> False], raw_annoyed_threshold = None,
          raw_annoyed_window_seconds = None, raw_pack_rotation = None \<rparr>,
        state_json = Absent \<rparr>) =
     \<lparr> final_store = Some \<lparr> config_json = Parsed
        \<lparr> raw_active_pack = None, raw_volume = None, raw_paused = None,
          raw_categories = Some [''error'' \<mapsto> False], raw_annoyed_threshold = None,
          raw_annoyed_window_seconds = None, raw_pack_rotation = None \<rparr>,
        state_json = Absent \<rparr>, effects = [], thrown = None \<rparr> \<and>
   event bare_host (SessionIdle ''s1'')
     (Some \<lparr> config_json = Parsed
        \<lparr> raw_active_pack = None, raw_volume = None, raw_paused = Some True,
          raw_categories = None, raw_annoyed_threshold = None,
          raw_annoyed_window_seconds = None, raw_pack_rotation = None \<rparr>,
        state_json = Absent \<rparr>) =
     \<lparr> final_store = Some \<lparr> config_json = Parsed
        \<lparr> raw_active_pack = None, raw_volume = None, raw_paused = Some True,
          raw_categories = None, raw_annoyed_threshold = None,
          raw_annoyed_window_seconds = None, raw_pack_rotation = None \<rparr>,
        state_json = Absent \<rparr>, effects = [], thrown = None \<rparr>"
  using event_paused_or_disabled_no_effect
    [of "Some \<lparr> config_json = Parsed
           \<lparr> raw_active_pack = None, raw_volume = None, raw_paused = None,
             raw_categories = Some [''error'' \<mapsto> False], raw_annoyed_threshold = None,
             raw_annoyed_window_seconds = None, raw_pack_rotation = None \<rparr>,
           state_json = Absent \<rparr>" bare_host "SessionError (Some ''s1'')" "Some ''s1''"]
    event_paused_or_disabled_no_effect
    [of "Some \<lparr> config_json = Parsed
           \<lparr> raw_active_pack = None, raw_volume = None, raw_paused = Some True,
             raw_categories = None, raw_annoyed_threshold = None,
             raw_annoyed_window_seconds = None, raw_pack_rotation = None \<rparr>,
           state_json = Absent \<rparr>" bare_host "SessionIdle ''s1''"]
  by (simp add: loadConfig_def ensureRuntimeDir_def mergeConfig_def DEFAULT_CONFIG_def)

end
